theory Spec2Isabelle
  imports Main "HOL-Library.Word"
begin

section \<open>Values\<close>

text \<open>
  Buffers are byte lists. A Go \<open>error\<close> is an interface value that may be nil: it is an
  \<open>error option\<close>, \<open>None\<close> being nil. Calling a nil function value and calling a method
  through a nil interface or a nil pointer both end in the same runtime panic.
\<close>

type_synonym byte = "8 word"

datatype error = Error string

datatype panic = NilPointerDereference

section \<open>Stream proxies\<close>

text \<open>
  \<open>ReaderProxy\<close> and \<open>WriterProxy\<close> are structs of an embedded stream (never used by the
  methods below, which shadow the promoted ones), the decorated stream \<open>From\<close> and the
  observer \<open>Handler\<close>. Every field may be nil. The types of the stream and of the
  observer are parameters: the controller only moves them around as references, the
  \<open>Read\<close> and \<open>Write\<close> methods call them.
\<close>

record ('r, 'h) ReaderProxy =
  ReaderProxy_Reader :: "'r option"
  ReaderProxy_From :: "'r option"
  ReaderProxy_Handler :: "'h option"

record ('r, 'h) WriterProxy =
  WriterProxy_Writer :: "'r option"
  WriterProxy_From :: "'r option"
  WriterProxy_Handler :: "'h option"

text \<open>
  A callable stream or observer acts on the world \<open>'w\<close> and on the buffer it is handed,
  which is a slice shared with the caller: a source fills it, and nothing in the language
  keeps an observer from writing to it, so both return the buffer as they leave it. A sink
  obeys the contract of \<open>io.Writer\<close> and leaves the buffer alone. The wrapped stream and
  the observer are taken to return.
\<close>

type_synonym 'w Handler = "byte list \<Rightarrow> int \<Rightarrow> error option \<Rightarrow> 'w \<Rightarrow> byte list \<times> 'w"

type_synonym 'w io_Reader = "byte list \<Rightarrow> 'w \<Rightarrow> (int \<times> error option) \<times> byte list \<times> 'w"

type_synonym 'w io_Writer = "byte list \<Rightarrow> 'w \<Rightarrow> (int \<times> error option) \<times> 'w"

text \<open>
  \<open>func (s ReaderProxy) Read(b []byte) (n int, err error)\<close>: the source is read, the
  observer is called with what the source returned, and that is returned. The result is
  the returned pair or the panic, the buffer and the world as the call leaves them.
\<close>

definition ReaderProxy_Read ::
  "('w io_Reader, 'w Handler) ReaderProxy \<Rightarrow> byte list \<Rightarrow> 'w
    \<Rightarrow> (panic + int \<times> error option) \<times> byte list \<times> 'w" where
  "ReaderProxy_Read s b w =
     (case ReaderProxy_From s of
        None \<Rightarrow> (Inl NilPointerDereference, b, w)
      | Some src \<Rightarrow>
          (case src b w of
             ((n, err), b1, w1) \<Rightarrow>
               (case ReaderProxy_Handler s of
                  None \<Rightarrow> (Inl NilPointerDereference, b1, w1)
                | Some h \<Rightarrow>
                    (case h b1 n err w1 of
                       (b2, w2) \<Rightarrow> (Inr (n, err), b2, w2)))))"

text \<open>
  \<open>func (s WriterProxy) Write(b []byte) (n int, err error)\<close>: the observer is called
  first, with the named results \<open>n\<close> and \<open>err\<close> as they are at that point (their zero
  values, 0 and nil), then the sink is written and its result returned.
\<close>

definition WriterProxy_Write ::
  "('w io_Writer, 'w Handler) WriterProxy \<Rightarrow> byte list \<Rightarrow> 'w
    \<Rightarrow> (panic + int \<times> error option) \<times> byte list \<times> 'w" where
  "WriterProxy_Write s b w =
     (case WriterProxy_Handler s of
        None \<Rightarrow> (Inl NilPointerDereference, b, w)
      | Some h \<Rightarrow>
          (case h b 0 None w of
             (b1, w1) \<Rightarrow>
               (case WriterProxy_From s of
                  None \<Rightarrow> (Inl NilPointerDereference, b1, w1)
                | Some snk \<Rightarrow>
                    (case snk b1 w1 of
                       ((n, err), w2) \<Rightarrow> (Inr (n, err), b1, w2)))))"

section \<open>The command over an OS process\<close>

text \<open>
  Of \<open>exec.Cmd\<close> (standard library) the three stream fields matter here; \<open>Path\<close> and
  \<open>Args\<close> stand for the rest. \<open>OsExecCommand\<close> embeds a pointer to it, which may be nil.
\<close>

record ('r, 'wr) exec_Cmd =
  Path :: string
  Args :: "string list"
  Stdin :: "'r option"
  Stdout :: "'wr option"
  Stderr :: "'wr option"

record ('r, 'wr, 'rp, 'wp) OsExecCommand =
  Cmd :: "('r, 'wr) exec_Cmd option"
  StdinProxy :: 'rp
  StdoutProxy :: 'wp
  StderrProxy :: 'wp

definition wrapExecCommand ::
  "('r, 'wr) exec_Cmd option \<Rightarrow> 'rp \<Rightarrow> 'wp \<Rightarrow> 'wp \<Rightarrow> ('r, 'wr, 'rp, 'wp) OsExecCommand" where
  "wrapExecCommand c stdinProxy stdoutProxy stderrProxy =
     \<lparr>Cmd = c, StdinProxy = stdinProxy, StdoutProxy = stdoutProxy, StderrProxy = stderrProxy\<rparr>"

definition OsExecCommand_GetProxies ::
  "('r, 'wr, 'rp, 'wp) OsExecCommand \<Rightarrow> 'rp \<times> 'wp \<times> 'wp" where
  "OsExecCommand_GetProxies c = (StdinProxy c, StdoutProxy c, StderrProxy c)"

text \<open>
  The setters mutate the process description behind the pointer; the model returns the
  command as the call leaves it, or the panic of reading a field through a nil pointer.
  The stream handed over is an interface value and may itself be nil.
\<close>

definition OsExecCommand_SetStdin ::
  "('r, 'wr, 'rp, 'wp) OsExecCommand \<Rightarrow> 'r option \<Rightarrow> panic + ('r, 'wr, 'rp, 'wp) OsExecCommand" where
  "OsExecCommand_SetStdin c r =
     (case Cmd c of
        None \<Rightarrow> Inl NilPointerDereference
      | Some k \<Rightarrow> if Stdin k = None then Inr (c\<lparr>Cmd := Some (k\<lparr>Stdin := r\<rparr>)\<rparr>) else Inr c)"

definition OsExecCommand_SetStdout ::
  "('r, 'wr, 'rp, 'wp) OsExecCommand \<Rightarrow> 'wr option \<Rightarrow> panic + ('r, 'wr, 'rp, 'wp) OsExecCommand" where
  "OsExecCommand_SetStdout c w =
     (case Cmd c of
        None \<Rightarrow> Inl NilPointerDereference
      | Some k \<Rightarrow> if Stdout k = None then Inr (c\<lparr>Cmd := Some (k\<lparr>Stdout := w\<rparr>)\<rparr>) else Inr c)"

definition OsExecCommand_SetStderr ::
  "('r, 'wr, 'rp, 'wp) OsExecCommand \<Rightarrow> 'wr option \<Rightarrow> panic + ('r, 'wr, 'rp, 'wp) OsExecCommand" where
  "OsExecCommand_SetStderr c w =
     (case Cmd c of
        None \<Rightarrow> Inl NilPointerDereference
      | Some k \<Rightarrow> if Stderr k = None then Inr (c\<lparr>Cmd := Some (k\<lparr>Stderr := w\<rparr>)\<rparr>) else Inr c)"

section \<open>The hand-off controller\<close>

text \<open>
  \<open>ExecCommand\<close> is the interface of a runnable command. Its methods act on the world.
  The setters take an \<open>io.Reader\<close> or \<open>io.Writer\<close>; the controller is their only caller
  here and hands them proxies, so that is the type they have in the model.
\<close>

record ('w, 'r, 'wr, 'h) ExecCommand =
  Run :: "'w \<Rightarrow> error option \<times> 'w"
  SetStdin :: "('r, 'h) ReaderProxy \<Rightarrow> 'w \<Rightarrow> 'w"
  SetStdout :: "('wr, 'h) WriterProxy \<Rightarrow> 'w \<Rightarrow> 'w"
  SetStderr :: "('wr, 'h) WriterProxy \<Rightarrow> 'w \<Rightarrow> 'w"
  GetProxies :: "'w \<Rightarrow> (('r, 'h) ReaderProxy \<times> ('wr, 'h) WriterProxy \<times> ('wr, 'h) WriterProxy) \<times> 'w"

text \<open>
  \<open>Program\<close> is declared elsewhere in the package. The controller uses its two terminal
  operations and its two streams, which are parameters here; \<open>Send\<close> is only ever
  started in a goroutine of its own and never runs inside the controller.
\<close>

record ('w, 'r, 'wr) Program =
  ReleaseTerminal :: "'w \<Rightarrow> error option \<times> 'w"
  RestoreTerminal :: "'w \<Rightarrow> error option \<times> 'w"
  Program_input :: "'r option"
  Program_output :: "'wr option"

type_synonym ('w, 'msg) ExecCallback = "error option \<Rightarrow> 'w \<Rightarrow> 'msg \<times> 'w"

text \<open>
  \<open>if fn != nil { go p.Send(fn(err)) }\<close>: the operand \<open>fn(err)\<close> of the \<open>go\<close> statement
  is evaluated by the controller itself; the call of \<open>Send\<close> on the message is what the
  new goroutine runs. The model returns the messages for which such a goroutine was
  started.
\<close>

definition go_Send ::
  "('w, 'msg) ExecCallback option \<Rightarrow> error option \<Rightarrow> 'w \<Rightarrow> 'msg list \<times> 'w" where
  "go_Send fn err w =
     (case fn of
        None \<Rightarrow> ([], w)
      | Some f \<Rightarrow> (case f err w of (m, w1) \<Rightarrow> ([m], w1)))"

text \<open>
  \<open>func (p *Program) exec(c ExecCommand, fn ExecCallback)\<close>. The command is an interface
  value: calling \<open>GetProxies\<close> on a nil one panics. The methods of the command and of the
  program are taken to return. The result is whether the call returned or panicked, the
  messages handed to new goroutines, and the world.
\<close>

definition exec ::
  "('w, 'r, 'wr) Program \<Rightarrow> ('w, 'r, 'wr, 'h) ExecCommand option
    \<Rightarrow> ('w, 'msg) ExecCallback option \<Rightarrow> 'w \<Rightarrow> (panic + unit) \<times> 'msg list \<times> 'w" where
  "exec p c fn w =
     (case ReleaseTerminal p w of
        (Some err, w1) \<Rightarrow>
          (case go_Send fn (Some err) w1 of (sent, w2) \<Rightarrow> (Inr (), sent, w2))
      | (None, w1) \<Rightarrow>
          (case c of
             None \<Rightarrow> (Inl NilPointerDereference, [], w1)
           | Some cmd \<Rightarrow>
               (case GetProxies cmd w1 of
                  ((stdinProxy, stdoutProxy, stderrProxy), w2) \<Rightarrow>
                    (let stdinProxy = stdinProxy\<lparr>ReaderProxy_From := Program_input p\<rparr>;
                         stdoutProxy = stdoutProxy\<lparr>WriterProxy_From := Program_output p\<rparr>;
                         stderrProxy = stderrProxy\<lparr>WriterProxy_From := Program_output p\<rparr>;
                         w3 = SetStdin cmd stdinProxy w2;
                         w4 = SetStdout cmd stdoutProxy w3;
                         w5 = SetStderr cmd stderrProxy w4
                     in (case Run cmd w5 of
                           (Some err, w6) \<Rightarrow>
                             (case RestoreTerminal p w6 of
                                (_, w7) \<Rightarrow>
                                  (case go_Send fn (Some err) w7 of
                                     (sent, w8) \<Rightarrow> (Inr (), sent, w8)))
                         | (None, w6) \<Rightarrow>
                             (case RestoreTerminal p w6 of
                                (err, w7) \<Rightarrow>
                                  (case go_Send fn err w7 of
                                     (sent, w8) \<Rightarrow> (Inr (), sent, w8))))))))"

section \<open>Probes\<close>

text \<open>
  To speak of what is called, in which order and with what, the streams, observers,
  commands, programs and callbacks under study are wrapped in probes that append a record
  of each call to a log kept beside the state \<open>'u\<close> they act on. The wrapped behaviour
  is arbitrary and cannot touch the log.
\<close>

datatype io_event =
    SourceRead "byte list" int "error option"
  | Observed "byte list" int "error option"
  | SinkWrite "byte list" int "error option"

definition probe_Reader :: "'u io_Reader \<Rightarrow> (io_event list \<times> 'u) io_Reader" where
  "probe_Reader src b lu =
     (case lu of
        (l, u) \<Rightarrow>
          (case src b u of
             ((n, err), b1, u1) \<Rightarrow> ((n, err), b1, (l @ [SourceRead b1 n err], u1))))"

definition probe_Writer :: "'u io_Writer \<Rightarrow> (io_event list \<times> 'u) io_Writer" where
  "probe_Writer snk b lu =
     (case lu of
        (l, u) \<Rightarrow>
          (case snk b u of
             ((n, err), u1) \<Rightarrow> ((n, err), (l @ [SinkWrite b n err], u1))))"

definition probe_Handler :: "'u Handler \<Rightarrow> (io_event list \<times> 'u) Handler" where
  "probe_Handler h b n err lu =
     (case lu of
        (l, u) \<Rightarrow>
          (case h b n err u of
             (b1, u1) \<Rightarrow> (b1, (l @ [Observed b n err], u1))))"

datatype ('r, 'wr, 'h) exec_event =
    is_Release: ReleaseReturned "error option"
  | is_GetProxies: GetProxiesReturned "('r, 'h) ReaderProxy" "('wr, 'h) WriterProxy" "('wr, 'h) WriterProxy"
  | is_SetStdin: SetStdinCalled "('r, 'h) ReaderProxy"
  | is_SetStdout: SetStdoutCalled "('wr, 'h) WriterProxy"
  | is_SetStderr: SetStderrCalled "('wr, 'h) WriterProxy"
  | is_Run: RunReturned "error option"
  | is_Restore: RestoreReturned "error option"
  | is_Callback: CallbackReceived "error option"

definition probe_Program ::
  "('u, 'r, 'wr) Program \<Rightarrow> (('r, 'wr, 'h) exec_event list \<times> 'u, 'r, 'wr) Program" where
  "probe_Program p =
     \<lparr>ReleaseTerminal = (\<lambda>(l, u). case ReleaseTerminal p u of
                                    (err, u1) \<Rightarrow> (err, (l @ [ReleaseReturned err], u1))),
      RestoreTerminal = (\<lambda>(l, u). case RestoreTerminal p u of
                                    (err, u1) \<Rightarrow> (err, (l @ [RestoreReturned err], u1))),
      Program_input = Program_input p,
      Program_output = Program_output p\<rparr>"

definition probe_ExecCommand ::
  "('u, 'r, 'wr, 'h) ExecCommand \<Rightarrow> (('r, 'wr, 'h) exec_event list \<times> 'u, 'r, 'wr, 'h) ExecCommand" where
  "probe_ExecCommand c =
     \<lparr>Run = (\<lambda>(l, u). case Run c u of (err, u1) \<Rightarrow> (err, (l @ [RunReturned err], u1))),
      SetStdin = (\<lambda>r (l, u). (l @ [SetStdinCalled r], SetStdin c r u)),
      SetStdout = (\<lambda>x (l, u). (l @ [SetStdoutCalled x], SetStdout c x u)),
      SetStderr = (\<lambda>x (l, u). (l @ [SetStderrCalled x], SetStderr c x u)),
      GetProxies = (\<lambda>(l, u). case GetProxies c u of
                               ((i, out, e), u1) \<Rightarrow> ((i, out, e), (l @ [GetProxiesReturned i out e], u1)))\<rparr>"

definition probe_ExecCallback ::
  "('u, 'msg) ExecCallback \<Rightarrow> (('r, 'wr, 'h) exec_event list \<times> 'u, 'msg) ExecCallback" where
  "probe_ExecCallback f err lu =
     (case lu of
        (l, u) \<Rightarrow> (case f err u of (m, u1) \<Rightarrow> (m, (l @ [CallbackReceived err], u1))))"

text \<open>
  The log of one run of the controller from an empty log, on a probed program, a probed
  command (or none) and a probed callback (or none).
\<close>

definition exec_trace ::
  "('u, 'r, 'wr) Program \<Rightarrow> ('u, 'r, 'wr, 'h) ExecCommand option
    \<Rightarrow> ('u, 'msg) ExecCallback option \<Rightarrow> 'u \<Rightarrow> ('r, 'wr, 'h) exec_event list" where
  "exec_trace p c fn u =
     fst (snd (snd (exec (probe_Program p) (map_option probe_ExecCommand c)
                      (map_option probe_ExecCallback fn) ([], u))))"

section \<open>Sample collaborators\<close>

text \<open>
  A source that delivers the two bytes of "hi", a sink that takes all it is given and
  keeps it, and an observer that counts its calls or does nothing.
\<close>

definition hi_source :: "nat io_Reader" where
  "hi_source b u = ((2, None), [104, 105] @ drop 2 b, u)"

definition keeping_sink :: "(byte list) io_Writer" where
  "keeping_sink b u = ((int (length b), None), u @ b)"

definition counting_observer :: "nat Handler" where
  "counting_observer b n err u = (b, Suc u)"

definition idle_observer :: "(byte list) Handler" where
  "idle_observer b n err u = (b, u)"

text \<open>
  A host whose terminal is released without failure and whose restore fails, a host whose
  release fails, and a command with one tap on each stream whose run fails. Streams and
  observers are named by strings; the state counts the calls made.
\<close>

definition sample_Program :: "(nat, string, string) Program" where
  "sample_Program =
     \<lparr>ReleaseTerminal = (\<lambda>u. (None, Suc u)),
      RestoreTerminal = (\<lambda>u. (Some (Error ''restore''), Suc u)),
      Program_input = Some ''host input'',
      Program_output = Some ''host output''\<rparr>"

definition stuck_Program :: "(nat, string, string) Program" where
  "stuck_Program =
     \<lparr>ReleaseTerminal = (\<lambda>u. (Some (Error ''release''), Suc u)),
      RestoreTerminal = (\<lambda>u. (None, Suc u)),
      Program_input = Some ''host input'',
      Program_output = Some ''host output''\<rparr>"

definition sample_ReaderProxy :: "(string, string) ReaderProxy" where
  "sample_ReaderProxy =
     \<lparr>ReaderProxy_Reader = None, ReaderProxy_From = None, ReaderProxy_Handler = Some ''tap in''\<rparr>"

definition sample_WriterProxy :: "(string, string) WriterProxy" where
  "sample_WriterProxy =
     \<lparr>WriterProxy_Writer = None, WriterProxy_From = None, WriterProxy_Handler = Some ''tap out''\<rparr>"

definition failing_ExecCommand :: "(nat, string, string, string) ExecCommand" where
  "failing_ExecCommand =
     \<lparr>Run = (\<lambda>u. (Some (Error ''exit status 1''), Suc u)),
      SetStdin = (\<lambda>r u. Suc u),
      SetStdout = (\<lambda>x u. Suc u),
      SetStderr = (\<lambda>x u. Suc u),
      GetProxies = (\<lambda>u. ((sample_ReaderProxy, sample_WriterProxy, sample_WriterProxy), Suc u))\<rparr>"

definition succeeding_ExecCommand :: "(nat, string, string, string) ExecCommand" where
  "succeeding_ExecCommand = failing_ExecCommand\<lparr>Run := (\<lambda>u. (None, Suc u))\<rparr>"

definition sample_ExecCallback :: "(nat, error option) ExecCallback" where
  "sample_ExecCallback err u = (err, Suc u)"

definition sample_OsExecCommand :: "(string, string, unit, unit) OsExecCommand" where
  "sample_OsExecCommand =
     wrapExecCommand
       (Some \<lparr>Path = ''vim'', Args = [''vim'', ''file.txt''],
              Stdin = Some ''tty'', Stdout = None, Stderr = None\<rparr>) () () ()"

section \<open>Probes are transparent\<close>

text \<open>
  A probed run returns what the plain run returns and leaves the state as the plain run
  leaves it: the log is the only difference, so what the log shows is what the plain
  code does.
\<close>

lemma probes_keep_behaviour:
  "(case exec (probe_Program p) (map_option probe_ExecCommand c)
           (map_option probe_ExecCallback fn) (l, u) of
      (res, sent, (l', u')) \<Rightarrow> exec p c fn u = (res, sent, u'))"
  by (cases fn; cases c)
     (auto simp add: exec_def go_Send_def probe_Program_def probe_ExecCommand_def
        probe_ExecCallback_def Let_def split: prod.splits option.splits)

lemma probed_streams_keep_behaviour:
  "(case ReaderProxy_Read \<lparr>ReaderProxy_Reader = emb, ReaderProxy_From = map_option probe_Reader src,
            ReaderProxy_Handler = map_option probe_Handler obs\<rparr> b (l, u) of
      (res, b', (l', u')) \<Rightarrow>
         ReaderProxy_Read \<lparr>ReaderProxy_Reader = emb', ReaderProxy_From = src,
            ReaderProxy_Handler = obs\<rparr> b u = (res, b', u'))"
  "(case WriterProxy_Write \<lparr>WriterProxy_Writer = wemb, WriterProxy_From = map_option probe_Writer snk,
            WriterProxy_Handler = map_option probe_Handler obs\<rparr> b (l, u) of
      (res, b', (l', u')) \<Rightarrow>
         WriterProxy_Write \<lparr>WriterProxy_Writer = wemb', WriterProxy_From = snk,
            WriterProxy_Handler = obs\<rparr> b u = (res, b', u'))"
  by (cases src; cases obs; cases snk;
      auto simp add: ReaderProxy_Read_def WriterProxy_Write_def probe_Reader_def probe_Writer_def
        probe_Handler_def split: prod.splits option.splits)+

section \<open>The traces of the controller\<close>

lemma go_Send_probed:
  "go_Send None e w = ([], w)"
  "go_Send (Some (probe_ExecCallback f)) e (l, u) =
     ([fst (f e u)], (l @ [CallbackReceived e], snd (f e u)))"
  by (simp_all add: go_Send_def probe_ExecCallback_def split: prod.splits)

lemma exec_probed_release_failed:
  assumes "ReleaseTerminal p u = (Some R, u1)"
  shows "exec (probe_Program p) c fn (l, u) =
           (Inr (), fst (go_Send fn (Some R) (l @ [ReleaseReturned (Some R)], u1)),
            snd (go_Send fn (Some R) (l @ [ReleaseReturned (Some R)], u1)))"
  using assms by (simp add: exec_def probe_Program_def split: prod.splits)

lemma exec_probed_nil_command:
  assumes "ReleaseTerminal p u = (None, u1)"
  shows "exec (probe_Program p) None fn (l, u) =
           (Inl NilPointerDereference, [], (l @ [ReleaseReturned None], u1))"
  using assms by (simp add: exec_def probe_Program_def)

lemma exec_probed_run:
  assumes "ReleaseTerminal p u = (None, u1)"
    and "GetProxies c u1 = ((i, out, e), u2)"
    and "Run c (SetStderr c (e\<lparr>WriterProxy_From := Program_output p\<rparr>)
                 (SetStdout c (out\<lparr>WriterProxy_From := Program_output p\<rparr>)
                   (SetStdin c (i\<lparr>ReaderProxy_From := Program_input p\<rparr>) u2))) = (r, u6)"
    and "RestoreTerminal p u6 = (x, u7)"
  shows "exec (probe_Program p) (Some (probe_ExecCommand c)) fn (l, u) =
           (Inr (),
            go_Send fn (case r of None \<Rightarrow> x | Some E \<Rightarrow> Some E)
              (l @ [ReleaseReturned None, GetProxiesReturned i out e,
                    SetStdinCalled (i\<lparr>ReaderProxy_From := Program_input p\<rparr>),
                    SetStdoutCalled (out\<lparr>WriterProxy_From := Program_output p\<rparr>),
                    SetStderrCalled (e\<lparr>WriterProxy_From := Program_output p\<rparr>),
                    RunReturned r, RestoreReturned x], u7))"
  using assms
  by (cases r) (simp_all add: exec_def probe_Program_def probe_ExecCommand_def Let_def split: prod.splits)

lemma exec_trace_cases:
  fixes fn :: "('u, 'msg) ExecCallback option"
  shows "(\<exists>R. exec_trace p c fn u =
              ReleaseReturned (Some R) # (if fn = None then [] else [CallbackReceived (Some R)]))
       \<or> (c = None \<and> exec_trace p c fn u = [ReleaseReturned None])
       \<or> (\<exists>i out e r x. c \<noteq> None \<and>
             exec_trace p c fn u =
               [ReleaseReturned None, GetProxiesReturned i out e,
                SetStdinCalled (i\<lparr>ReaderProxy_From := Program_input p\<rparr>),
                SetStdoutCalled (out\<lparr>WriterProxy_From := Program_output p\<rparr>),
                SetStderrCalled (e\<lparr>WriterProxy_From := Program_output p\<rparr>),
                RunReturned r, RestoreReturned x]
               @ (if fn = None then []
                  else [CallbackReceived (case r of None \<Rightarrow> x | Some E \<Rightarrow> Some E)]))"
proof -
  obtain r0 u1 where rel: "ReleaseTerminal p u = (r0, u1)" by (cases "ReleaseTerminal p u")
  show ?thesis
  proof (cases r0)
    case (Some R)
    with rel show ?thesis
      by (cases fn) (auto simp add: exec_trace_def exec_probed_release_failed go_Send_probed)
  next
    case None
    note ok = rel [unfolded None]
    show ?thesis
    proof (cases c)
      case None
      with ok show ?thesis by (auto simp add: exec_trace_def exec_probed_nil_command)
    next
      case (Some cmd)
      obtain i out e u2 where gp: "GetProxies cmd u1 = ((i, out, e), u2)"
        by (cases "GetProxies cmd u1") auto
      obtain r u6 where run:
        "Run cmd (SetStderr cmd (e\<lparr>WriterProxy_From := Program_output p\<rparr>)
                   (SetStdout cmd (out\<lparr>WriterProxy_From := Program_output p\<rparr>)
                     (SetStdin cmd (i\<lparr>ReaderProxy_From := Program_input p\<rparr>) u2))) = (r, u6)"
        by (cases "Run cmd (SetStderr cmd (e\<lparr>WriterProxy_From := Program_output p\<rparr>)
                   (SetStdout cmd (out\<lparr>WriterProxy_From := Program_output p\<rparr>)
                     (SetStdin cmd (i\<lparr>ReaderProxy_From := Program_input p\<rparr>) u2)))")
      obtain x u7 where rest: "RestoreTerminal p u6 = (x, u7)" by (cases "RestoreTerminal p u6")
      from Some show ?thesis
        by (cases fn)
           (auto simp add: exec_trace_def exec_probed_run [OF ok gp run rest] go_Send_probed)
    qed
  qed
qed

lemma sample_traces:
  "exec_trace sample_Program (Some failing_ExecCommand) (Some sample_ExecCallback) 0 =
     [ReleaseReturned None,
      GetProxiesReturned sample_ReaderProxy sample_WriterProxy sample_WriterProxy,
      SetStdinCalled (sample_ReaderProxy\<lparr>ReaderProxy_From := Some ''host input''\<rparr>),
      SetStdoutCalled (sample_WriterProxy\<lparr>WriterProxy_From := Some ''host output''\<rparr>),
      SetStderrCalled (sample_WriterProxy\<lparr>WriterProxy_From := Some ''host output''\<rparr>),
      RunReturned (Some (Error ''exit status 1'')),
      RestoreReturned (Some (Error ''restore'')),
      CallbackReceived (Some (Error ''exit status 1''))]"
  "exec_trace sample_Program (Some succeeding_ExecCommand) (Some sample_ExecCallback) 0 =
     [ReleaseReturned None,
      GetProxiesReturned sample_ReaderProxy sample_WriterProxy sample_WriterProxy,
      SetStdinCalled (sample_ReaderProxy\<lparr>ReaderProxy_From := Some ''host input''\<rparr>),
      SetStdoutCalled (sample_WriterProxy\<lparr>WriterProxy_From := Some ''host output''\<rparr>),
      SetStderrCalled (sample_WriterProxy\<lparr>WriterProxy_From := Some ''host output''\<rparr>),
      RunReturned None,
      RestoreReturned (Some (Error ''restore'')),
      CallbackReceived (Some (Error ''restore''))]"
  "exec_trace stuck_Program (Some failing_ExecCommand) (Some sample_ExecCallback) 0 =
     [ReleaseReturned (Some (Error ''release'')), CallbackReceived (Some (Error ''release''))]"
  by (simp_all add: exec_trace_def exec_def go_Send_def probe_Program_def probe_ExecCommand_def
      probe_ExecCallback_def sample_Program_def stuck_Program_def failing_ExecCommand_def
      succeeding_ExecCommand_def sample_ExecCallback_def Let_def)

section \<open>The setters of the OS-process command\<close>

text \<open>
  C7. On a command over a process description, each of \<open>SetStdin\<close>, \<open>SetStdout\<close> and
  \<open>SetStderr\<close> returns; it leaves the command as it is when the stream field is already
  non-nil, and when the field is nil it stores the given stream there and changes nothing
  else.
\<close>

theorem OsExecCommand_setters_fill_only_unset:
  assumes "Cmd c = Some k"
  shows "(Stdin k \<noteq> None \<longrightarrow> OsExecCommand_SetStdin c r = Inr c)
       \<and> (Stdin k = None \<longrightarrow> OsExecCommand_SetStdin c r = Inr (c\<lparr>Cmd := Some (k\<lparr>Stdin := r\<rparr>)\<rparr>))
       \<and> (Stdout k \<noteq> None \<longrightarrow> OsExecCommand_SetStdout c x = Inr c)
       \<and> (Stdout k = None \<longrightarrow> OsExecCommand_SetStdout c x = Inr (c\<lparr>Cmd := Some (k\<lparr>Stdout := x\<rparr>)\<rparr>))
       \<and> (Stderr k \<noteq> None \<longrightarrow> OsExecCommand_SetStderr c y = Inr c)
       \<and> (Stderr k = None \<longrightarrow> OsExecCommand_SetStderr c y = Inr (c\<lparr>Cmd := Some (k\<lparr>Stderr := y\<rparr>)\<rparr>))"
  using assms
  by (simp add: OsExecCommand_SetStdin_def OsExecCommand_SetStdout_def OsExecCommand_SetStderr_def)

theorem OsExecCommand_setters_fill_only_unset_witness:
  "Cmd sample_OsExecCommand =
     Some \<lparr>Path = ''vim'', Args = [''vim'', ''file.txt''],
           Stdin = Some ''tty'', Stdout = None, Stderr = None\<rparr>
   \<and> OsExecCommand_SetStdin sample_OsExecCommand (Some ''proxy'') = Inr sample_OsExecCommand
   \<and> OsExecCommand_SetStdout sample_OsExecCommand (Some ''proxy'') =
       Inr (sample_OsExecCommand\<lparr>Cmd := Some \<lparr>Path = ''vim'', Args = [''vim'', ''file.txt''],
              Stdin = Some ''tty'', Stdout = Some ''proxy'', Stderr = None\<rparr>\<rparr>)
   \<and> OsExecCommand_SetStderr sample_OsExecCommand None = Inr sample_OsExecCommand"
proof -
  have h: "Cmd sample_OsExecCommand =
     Some \<lparr>Path = ''vim'', Args = [''vim'', ''file.txt''],
           Stdin = Some ''tty'', Stdout = None, Stderr = None\<rparr>"
    by (simp add: sample_OsExecCommand_def wrapExecCommand_def)
  show ?thesis
    using h OsExecCommand_setters_fill_only_unset [OF h, of "Some ''proxy''" "Some ''proxy''" None]
    by (simp add: sample_OsExecCommand_def wrapExecCommand_def)
qed

section \<open>The reader proxy\<close>

text \<open>
  C3. A call of \<open>Read\<close> on a reader proxy over a source and an observer, with any buffer:
  the source is read first, then the observer is called exactly once, with the buffer,
  the count and the error the source produced; the call returns that count and that
  error; and the buffer holds the bytes the source delivered, provided the observer does
  not write to the buffer it is shown.
\<close>

theorem ReaderProxy_Read_transparent:
  assumes "src b u = ((n, err), b1, u1)"
  shows "\<exists>b2 u2.
           ReaderProxy_Read
             \<lparr>ReaderProxy_Reader = emb, ReaderProxy_From = Some (probe_Reader src),
              ReaderProxy_Handler = Some (probe_Handler obs)\<rparr> b ([], u)
             = (Inr (n, err), b2, ([SourceRead b1 n err, Observed b1 n err], u2))
           \<and> ((\<forall>x k e v. fst (obs x k e v) = x) \<longrightarrow> b2 = b1)"
proof -
  obtain b2 u2 where o: "obs b1 n err u1 = (b2, u2)" by (cases "obs b1 n err u1")
  have "ReaderProxy_Read
             \<lparr>ReaderProxy_Reader = emb, ReaderProxy_From = Some (probe_Reader src),
              ReaderProxy_Handler = Some (probe_Handler obs)\<rparr> b ([], u)
             = (Inr (n, err), b2, ([SourceRead b1 n err, Observed b1 n err], u2))"
    using assms o by (simp add: ReaderProxy_Read_def probe_Reader_def probe_Handler_def)
  moreover have "(\<forall>x k e v. fst (obs x k e v) = x) \<longrightarrow> b2 = b1"
    using o by (metis fst_conv)
  ultimately show ?thesis by blast
qed

theorem ReaderProxy_Read_transparent_witness:
  "hi_source [0, 0, 0] 7 = ((2, None), [104, 105, 0], 7)
   \<and> ReaderProxy_Read
        \<lparr>ReaderProxy_Reader = None, ReaderProxy_From = Some (probe_Reader hi_source),
         ReaderProxy_Handler = Some (probe_Handler counting_observer)\<rparr> [0, 0, 0] ([], 7)
      = (Inr (2, None), [104, 105, 0],
         ([SourceRead [104, 105, 0] 2 None, Observed [104, 105, 0] 2 None], 8))"
proof -
  have h: "hi_source [0, 0, 0] 7 = ((2, None), [104, 105, 0], 7)"
    by (simp add: hi_source_def)
  show ?thesis
    using h ReaderProxy_Read_transparent
      [where src = hi_source and b = "[0, 0, 0]" and u = 7 and n = 2 and err = None
         and ?b1.0 = "[104, 105, 0]" and ?u1.0 = 7 and emb = None and obs = counting_observer]
    by (auto simp add: counting_observer_def ReaderProxy_Read_def probe_Reader_def probe_Handler_def)
qed

section \<open>The writer proxy\<close>

text \<open>
  C4. A call of \<open>Write\<close> on a writer proxy over a sink and an observer, with any buffer:
  the observer is called exactly once, before the sink is written, and the call returns
  the count and the error the sink returned.
\<close>

theorem WriterProxy_Write_observer_first:
  assumes "obs b 0 None u = (b1, u1)" and "snk b1 u1 = ((n, err), u2)"
  shows "WriterProxy_Write
           \<lparr>WriterProxy_Writer = emb, WriterProxy_From = Some (probe_Writer snk),
            WriterProxy_Handler = Some (probe_Handler obs)\<rparr> b ([], u)
         = (Inr (n, err), b1, ([Observed b 0 None, SinkWrite b1 n err], u2))"
  using assms by (simp add: WriterProxy_Write_def probe_Writer_def probe_Handler_def)

theorem WriterProxy_Write_observer_first_witness:
  "idle_observer [104, 105] 0 None [] = ([104, 105], [])
   \<and> keeping_sink [104, 105] [] = ((2, None), [104, 105])
   \<and> WriterProxy_Write
        \<lparr>WriterProxy_Writer = None, WriterProxy_From = Some (probe_Writer keeping_sink),
         WriterProxy_Handler = Some (probe_Handler idle_observer)\<rparr> [104, 105] ([], [])
      = (Inr (2, None), [104, 105],
         ([Observed [104, 105] 0 None, SinkWrite [104, 105] 2 None], [104, 105]))"
proof -
  have h1: "idle_observer [104, 105] 0 None [] = ([104, 105], [])"
    by (simp add: idle_observer_def)
  have h2: "keeping_sink [104, 105] [] = ((2, None), [104, 105])"
    by (simp add: keeping_sink_def)
  show ?thesis
    using h1 h2 WriterProxy_Write_observer_first
      [where obs = idle_observer and b = "[104, 105]" and u = "[]" and ?b1.0 = "[104, 105]"
         and ?u1.0 = "[]" and snk = keeping_sink and n = 2 and err = None
         and ?u2.0 = "[104, 105]" and emb = None]
    by simp
qed

text \<open>
  C5. The observer of a writer proxy is to receive the number of bytes transferred and the
  error of the write. Writing the three bytes of "hi!" to a sink that takes all three:
  the sink returns 3 and no error, and the observer, called before the sink, was handed
  the count 0.
\<close>

theorem WriterProxy_Write_observer_gets_zero_values:
  "WriterProxy_Write
     \<lparr>WriterProxy_Writer = None, WriterProxy_From = Some (probe_Writer keeping_sink),
      WriterProxy_Handler = Some (probe_Handler idle_observer)\<rparr> [104, 105, 33] ([], [])
   = (Inr (3, None), [104, 105, 33],
      ([Observed [104, 105, 33] 0 None, SinkWrite [104, 105, 33] 3 None], [104, 105, 33]))"
  by (simp add: WriterProxy_Write_def probe_Writer_def probe_Handler_def
      keeping_sink_def idle_observer_def)

section \<open>Proxies without an observer\<close>

text \<open>
  C6, as stated: \<open>Read\<close> and \<open>Write\<close> on a proxy whose \<open>Handler\<close> is nil complete
  without fault. On a reader proxy over the "hi" source and no observer, \<open>Read\<close> reads the
  source and then panics; on a writer proxy over the keeping sink and no observer,
  \<open>Write\<close> panics and the sink has received nothing.
\<close>

theorem nil_Handler_Read_panics:
  "ReaderProxy_Read
     \<lparr>ReaderProxy_Reader = None, ReaderProxy_From = Some hi_source,
      ReaderProxy_Handler = None\<rparr> [0, 0, 0] 7
   = (Inl NilPointerDereference, [104, 105, 0], 7)
   \<and> WriterProxy_Write
     \<lparr>WriterProxy_Writer = None, WriterProxy_From = Some keeping_sink,
      WriterProxy_Handler = None\<rparr> [104, 105] []
   = (Inl NilPointerDereference, [104, 105], [])"
  by (simp add: ReaderProxy_Read_def WriterProxy_Write_def hi_source_def)

text \<open>
  C6, amended. A proxy needs its observer: on a proxy whose \<open>Handler\<close> is nil, \<open>Read\<close>
  panics, and \<open>Write\<close> panics before the sink is touched, the buffer and the world left
  as they were. With both the stream and the observer present, \<open>Read\<close> and \<open>Write\<close>
  return.
\<close>

theorem proxy_needs_Handler:
  "(ReaderProxy_Handler s = None \<longrightarrow> fst (ReaderProxy_Read s b w) = Inl NilPointerDereference)
   \<and> (WriterProxy_Handler t = None \<longrightarrow> WriterProxy_Write t d v = (Inl NilPointerDereference, d, v))
   \<and> (ReaderProxy_From s \<noteq> None \<and> ReaderProxy_Handler s \<noteq> None
        \<longrightarrow> (\<exists>r. fst (ReaderProxy_Read s b w) = Inr r))
   \<and> (WriterProxy_From t \<noteq> None \<and> WriterProxy_Handler t \<noteq> None
        \<longrightarrow> (\<exists>r. fst (WriterProxy_Write t d v) = Inr r))"
  by (auto simp add: ReaderProxy_Read_def WriterProxy_Write_def split: option.splits prod.splits)

theorem proxy_needs_Handler_witness:
  "WriterProxy_Write
     \<lparr>WriterProxy_Writer = None, WriterProxy_From = Some keeping_sink,
      WriterProxy_Handler = None\<rparr> [104, 105] [] = (Inl NilPointerDereference, [104, 105], [])
   \<and> (\<exists>r. fst (ReaderProxy_Read
        \<lparr>ReaderProxy_Reader = None, ReaderProxy_From = Some hi_source,
         ReaderProxy_Handler = Some counting_observer\<rparr> [0, 0, 0] 7) = Inr r)"
  using proxy_needs_Handler
    [where s = "\<lparr>ReaderProxy_Reader = None, ReaderProxy_From = Some hi_source,
                   ReaderProxy_Handler = Some counting_observer\<rparr>"
       and b = "[0, 0, 0]" and w = 7
       and t = "\<lparr>WriterProxy_Writer = None, WriterProxy_From = Some keeping_sink,
                   WriterProxy_Handler = None\<rparr>"
       and d = "[104, 105]" and v = "[]"]
  by simp

section \<open>The controller\<close>

text \<open>
  C1. In a run where the release of the terminal succeeds, on a command and with a
  callback: the terminal is restored exactly once; if \<open>Run\<close> returned a failure, the
  callback is called once and receives that failure, whatever the restore returned; if
  \<open>Run\<close> returned no failure, the callback is called once and receives what the restore
  returned.
\<close>

theorem exec_restores_once_and_reports:
  fixes f :: "('u, 'msg) ExecCallback"
  assumes "ReleaseReturned None \<in> set (exec_trace p (Some c) (Some f) u)"
  shows "length (filter is_Restore (exec_trace p (Some c) (Some f) u)) = 1
       \<and> (\<forall>E. RunReturned (Some E) \<in> set (exec_trace p (Some c) (Some f) u) \<longrightarrow>
              filter is_Callback (exec_trace p (Some c) (Some f) u) = [CallbackReceived (Some E)])
       \<and> (RunReturned None \<in> set (exec_trace p (Some c) (Some f) u) \<longrightarrow>
            (\<exists>x. filter is_Restore (exec_trace p (Some c) (Some f) u) = [RestoreReturned x]
               \<and> filter is_Callback (exec_trace p (Some c) (Some f) u) = [CallbackReceived x]))"
  using assms exec_trace_cases [of p "Some c" "Some f" u]
  by (elim disjE exE conjE) (auto split: option.splits)

theorem exec_restores_once_and_reports_witness:
  "ReleaseReturned None
     \<in> set (exec_trace sample_Program (Some failing_ExecCommand) (Some sample_ExecCallback) 0)
   \<and> RunReturned (Some (Error ''exit status 1''))
     \<in> set (exec_trace sample_Program (Some failing_ExecCommand) (Some sample_ExecCallback) 0)
   \<and> filter is_Restore
        (exec_trace sample_Program (Some failing_ExecCommand) (Some sample_ExecCallback) 0)
      = [RestoreReturned (Some (Error ''restore''))]
   \<and> filter is_Callback
        (exec_trace sample_Program (Some failing_ExecCommand) (Some sample_ExecCallback) 0)
      = [CallbackReceived (Some (Error ''exit status 1''))]
   \<and> ReleaseReturned None
     \<in> set (exec_trace sample_Program (Some succeeding_ExecCommand) (Some sample_ExecCallback) 0)
   \<and> RunReturned None
     \<in> set (exec_trace sample_Program (Some succeeding_ExecCommand) (Some sample_ExecCallback) 0)
   \<and> filter is_Callback
        (exec_trace sample_Program (Some succeeding_ExecCommand) (Some sample_ExecCallback) 0)
      = [CallbackReceived (Some (Error ''restore''))]"
proof -
  have h1: "ReleaseReturned None
     \<in> set (exec_trace sample_Program (Some failing_ExecCommand) (Some sample_ExecCallback) 0)"
    by (simp add: sample_traces)
  have h2: "ReleaseReturned None
     \<in> set (exec_trace sample_Program (Some succeeding_ExecCommand) (Some sample_ExecCallback) 0)"
    by (simp add: sample_traces)
  show ?thesis
    using h1 h2 exec_restores_once_and_reports [OF h1] exec_restores_once_and_reports [OF h2]
    by (simp add: sample_traces)
qed

text \<open>
  C2. In a run where the release of the terminal fails with an error: \<open>Run\<close> is not
  called, the terminal is not restored, and the callback, when there is one, is called
  once and receives that error.
\<close>

theorem exec_release_failure_aborts:
  fixes fn :: "('u, 'msg) ExecCallback option"
  assumes "ReleaseReturned (Some R) \<in> set (exec_trace p c fn u)"
  shows "(\<forall>e \<in> set (exec_trace p c fn u). \<not> is_Run e \<and> \<not> is_Restore e)
       \<and> (fn \<noteq> None \<longrightarrow> filter is_Callback (exec_trace p c fn u) = [CallbackReceived (Some R)])
       \<and> (fn = None \<longrightarrow> filter is_Callback (exec_trace p c fn u) = [])"
  using assms exec_trace_cases [of p c fn u]
  by (elim disjE exE conjE) (auto split: option.splits if_splits)

theorem exec_release_failure_aborts_witness:
  "ReleaseReturned (Some (Error ''release''))
     \<in> set (exec_trace stuck_Program (Some failing_ExecCommand) (Some sample_ExecCallback) 0)
   \<and> filter is_Run
        (exec_trace stuck_Program (Some failing_ExecCommand) (Some sample_ExecCallback) 0) = []
   \<and> filter is_Restore
        (exec_trace stuck_Program (Some failing_ExecCommand) (Some sample_ExecCallback) 0) = []
   \<and> filter is_Callback
        (exec_trace stuck_Program (Some failing_ExecCommand) (Some sample_ExecCallback) 0)
      = [CallbackReceived (Some (Error ''release''))]"
proof -
  have h: "ReleaseReturned (Some (Error ''release''))
     \<in> set (exec_trace stuck_Program (Some failing_ExecCommand) (Some sample_ExecCallback) 0)"
    by (simp add: sample_traces)
  show ?thesis
    using h exec_release_failure_aborts [OF h] by (simp add: filter_empty_conv)
qed

text \<open>
  C8. In a run where the release of the terminal succeeds, the calls made on the command
  are, in this order: \<open>GetProxies\<close>; \<open>SetStdin\<close> with the reader proxy it returned, bound
  to the input of the host; \<open>SetStdout\<close> and \<open>SetStderr\<close> with the two writer proxies it
  returned, both bound to the output of the host; \<open>Run\<close>.
\<close>

theorem exec_wires_proxies_before_Run:
  fixes fn :: "('u, 'msg) ExecCallback option"
  assumes "ReleaseReturned None \<in> set (exec_trace p (Some c) fn u)"
  shows "\<exists>i out e r.
           filter (\<lambda>ev. is_GetProxies ev \<or> is_SetStdin ev \<or> is_SetStdout ev \<or> is_SetStderr ev \<or> is_Run ev)
             (exec_trace p (Some c) fn u)
           = [GetProxiesReturned i out e,
              SetStdinCalled (i\<lparr>ReaderProxy_From := Program_input p\<rparr>),
              SetStdoutCalled (out\<lparr>WriterProxy_From := Program_output p\<rparr>),
              SetStderrCalled (e\<lparr>WriterProxy_From := Program_output p\<rparr>),
              RunReturned r]"
  using assms exec_trace_cases [of p "Some c" fn u]
  by (elim disjE exE conjE) (auto split: option.splits if_splits)

theorem exec_wires_proxies_before_Run_witness:
  "ReleaseReturned None
     \<in> set (exec_trace sample_Program (Some failing_ExecCommand) (Some sample_ExecCallback) 0)
   \<and> filter (\<lambda>ev. is_GetProxies ev \<or> is_SetStdin ev \<or> is_SetStdout ev \<or> is_SetStderr ev \<or> is_Run ev)
        (exec_trace sample_Program (Some failing_ExecCommand) (Some sample_ExecCallback) 0)
      = [GetProxiesReturned sample_ReaderProxy sample_WriterProxy sample_WriterProxy,
         SetStdinCalled (sample_ReaderProxy\<lparr>ReaderProxy_From := Some ''host input''\<rparr>),
         SetStdoutCalled (sample_WriterProxy\<lparr>WriterProxy_From := Some ''host output''\<rparr>),
         SetStderrCalled (sample_WriterProxy\<lparr>WriterProxy_From := Some ''host output''\<rparr>),
         RunReturned (Some (Error ''exit status 1''))]"
proof -
  have h: "ReleaseReturned None
     \<in> set (exec_trace sample_Program (Some failing_ExecCommand) (Some sample_ExecCallback) 0)"
    by (simp add: sample_traces)
  show ?thesis
    using h exec_wires_proxies_before_Run [OF h] by (simp add: sample_traces)
qed

text \<open>
  C9. Without a callback, the controller starts no delivery on any path, and on a
  command it returns to its caller without a panic.
\<close>

theorem exec_nil_callback_sends_nothing:
  "fst (exec p (Some c) None w) = Inr () \<and> fst (snd (exec p (Some c) None w)) = []
   \<and> fst (snd (exec p None None w)) = []"
  by (simp add: exec_def go_Send_def Let_def split: prod.splits option.splits)

end
